theory Spec2Isabelle
  imports Complex_Main "HOL-Library.Log_Nat"
begin

section \<open>Python values, exceptions and the geocoding service\<close>

text \<open>
  The three scripts (\<^verbatim>\<open>recreational_islands.py\<close>, \<^verbatim>\<open>islands2.py\<close>,
  \<^verbatim>\<open>showislands.py\<close>) query Nominatim through \<^verbatim>\<open>requests\<close> and draw a
  folium map. A Python float is modelled by the \<^typ>\<open>real\<close> number it denotes, and
  float arithmetic rounds (see \<open>fl\<close> below). The exceptions that the modelled statements can raise are values of
  \<open>exn\<close>; \<open>RequestException\<close> stands for \<^verbatim>\<open>requests.RequestException\<close> and all
  of its subclasses.
\<close>

datatype exn = RequestException | KeyError | TypeError | ValueError | IndexError

text \<open>What \<^verbatim>\<open>response.json()\<close> can return: a decoded JSON document.\<close>

datatype pyval =
    PNone
  | PBool bool
  | PNum real
  | PStr string
  | PList "pyval list"
  | PDict "(string \<times> pyval) list"

text \<open>Python truthiness, as used by \<^verbatim>\<open>if results:\<close> and \<^verbatim>\<open>if result:\<close>.\<close>

fun truthy :: "pyval \<Rightarrow> bool" where
  "truthy PNone = False"
| "truthy (PBool b) = b"
| "truthy (PNum x) = (x \<noteq> 0)"
| "truthy (PStr s) = (s \<noteq> [])"
| "truthy (PList xs) = (xs \<noteq> [])"
| "truthy (PDict kvs) = (kvs \<noteq> [])"

text \<open>\<^verbatim>\<open>v[0]\<close>: the keys of a decoded JSON object are strings, so \<open>0\<close> is never one.\<close>

fun index0 :: "pyval \<Rightarrow> exn + pyval" where
  "index0 (PList xs) = (case xs of [] \<Rightarrow> Inl IndexError | x # _ \<Rightarrow> Inr x)"
| "index0 (PStr s) = (case s of [] \<Rightarrow> Inl IndexError | c # _ \<Rightarrow> Inr (PStr [c]))"
| "index0 (PDict kvs) = Inl KeyError"
| "index0 v = Inl TypeError"

text \<open>\<^verbatim>\<open>v[k]\<close> for a string key \<open>k\<close>.\<close>

fun subscript :: "pyval \<Rightarrow> string \<Rightarrow> exn + pyval" where
  "subscript (PDict kvs) k = (case map_of kvs k of None \<Rightarrow> Inl KeyError | Some v \<Rightarrow> Inr v)"
| "subscript v k = Inl TypeError"

text \<open>
  \<^verbatim>\<open>float(v)\<close>. The builtin's parsing of a \<^verbatim>\<open>str\<close> is the parameter \<open>flt\<close>:
  \<open>flt s = None\<close> when \<^verbatim>\<open>float(s)\<close> raises \<^verbatim>\<open>ValueError\<close>.
\<close>

text \<open>
  Python floats are IEEE 754 binary64 numbers. \<open>fl x\<close> is the binary64 number nearest to
  \<open>x\<close>, ties going to the even significand: with \<open>2 ^ e \<le> \<bar>x\<bar> < 2 ^ (e + 1)\<close> (and \<open>e\<close>
  at least \<open>- 1022\<close>, below which the numbers are subnormal) the neighbours of \<open>x\<close> are
  \<open>2 ^ (e - 52)\<close> apart. Sum and quotient of floats are the rounded exact results. The
  model keeps to finite values: \<^verbatim>\<open>inf\<close> and \<^verbatim>\<open>nan\<close>, which Python produces beyond
  \<open>2 ^ 1024\<close> and reads from the strings \<^verbatim>\<open>inf\<close> and \<^verbatim>\<open>nan\<close>, are not represented.
\<close>

definition round_half_even :: "real \<Rightarrow> int" where
  "round_half_even y =
     (let f = \<lfloor>y\<rfloor> in
      if y - of_int f < 1 / 2 then f
      else if 1 / 2 < y - of_int f then f + 1
      else if even f then f else f + 1)"

definition pow2 :: "int \<Rightarrow> real" where
  "pow2 e = (if 0 \<le> e then 2 ^ nat e else 1 / 2 ^ nat (- e))"

text \<open>The exponent \<open>e\<close> with \<open>2 ^ e \<le> x < 2 ^ (e + 1)\<close>, for positive \<open>x\<close>.\<close>

definition binade :: "real \<Rightarrow> int" where
  "binade x = (if 1 \<le> x then bitlen \<lfloor>x\<rfloor> - 1 else - bitlen (\<lceil>1 / x\<rceil> - 1))"

definition fl :: "real \<Rightarrow> real" where
  "fl x =
     (if x = 0 then 0
      else let ulp = pow2 (max (binade \<bar>x\<bar>) (- 1022) - 52)
           in sgn x * (of_int (round_half_even (\<bar>x\<bar> / ulp)) * ulp))"

type_synonym str_to_float = "string \<Rightarrow> real option"

fun py_float :: "str_to_float \<Rightarrow> pyval \<Rightarrow> exn + real" where
  "py_float flt (PStr s) = (case flt s of None \<Rightarrow> Inl ValueError | Some x \<Rightarrow> Inr x)"
| "py_float flt (PNum x) = Inr x"
| "py_float flt (PBool b) = Inr (if b then 1 else 0)"
| "py_float flt v = Inl TypeError"

text \<open>\<^verbatim>\<open>float(v[k])\<close>, the exceptions of either step propagating.\<close>

definition float_field :: "str_to_float \<Rightarrow> pyval \<Rightarrow> string \<Rightarrow> exn + real" where
  "float_field flt v k = (case subscript v k of Inl e \<Rightarrow> Inl e | Inr x \<Rightarrow> py_float flt x)"

text \<open>
  A plain decimal reader (\<^verbatim>\<open>[+-]digits[.digits]\<close>) that rounds the decimal to binary64
  as Python's \<^verbatim>\<open>float\<close> does; it instantiates \<open>flt\<close> at concrete inputs.
\<close>

definition digit_val :: "char \<Rightarrow> nat option" where
  "digit_val c = (let n = of_char c :: nat in if 48 \<le> n \<and> n \<le> 57 then Some (n - 48) else None)"

fun digits_val :: "nat \<Rightarrow> string \<Rightarrow> nat option" where
  "digits_val acc [] = Some acc"
| "digits_val acc (c # cs) =
     (case digit_val c of None \<Rightarrow> None | Some d \<Rightarrow> digits_val (10 * acc + d) cs)"

definition unsigned_dec :: "string \<Rightarrow> real option" where
  "unsigned_dec s =
     (let ip = takeWhile (\<lambda>c. c \<noteq> CHR ''.'') s;
          rest = dropWhile (\<lambda>c. c \<noteq> CHR ''.'') s;
          fp = (case rest of [] \<Rightarrow> [] | _ # r \<Rightarrow> r)
      in if ip = [] \<and> fp = [] then None
         else (case (digits_val 0 ip, digits_val 0 fp) of
                 (Some a, Some b) \<Rightarrow> Some (real a + real b / 10 ^ length fp)
               | _ \<Rightarrow> None))"

definition dec_float :: str_to_float where
  "dec_float s =
     map_option fl
       (case s of
          [] \<Rightarrow> None
        | c # cs \<Rightarrow>
            if c = CHR ''-'' then map_option uminus (unsigned_dec cs)
            else if c = CHR ''+'' then unsigned_dec cs
            else unsigned_dec s)"

text \<open>
  One HTTP exchange, as \<^verbatim>\<open>geocode\<close> and \<^verbatim>\<open>get_coordinates\<close> see it:
  \<open>Raised e\<close> when \<^verbatim>\<open>get\<close>, \<^verbatim>\<open>raise_for_status\<close> or \<^verbatim>\<open>json\<close> raised \<open>e\<close>
  (connection failure, timeout and HTTP error status are \<open>RequestException\<close>),
  \<open>Body v\<close> when the body decoded to \<open>v\<close>.
\<close>

datatype reply = Raised exn | Body pyval

record params =
  p_q :: string
  p_format :: string
  p_limit :: nat
  p_countrycodes :: "string option"
  p_user_agent :: string

type_synonym service = "params \<Rightarrow> reply"

section \<open>recreational\_islands.py\<close>

record island =
  name :: string
  city :: string
  notes' :: string
  latitude :: "real option"
  longitude :: "real option"

text \<open>\<^verbatim>\<open>Island.__init__\<close>\<close>

definition Island :: "string \<Rightarrow> string \<Rightarrow> string \<Rightarrow> island" where
  "Island n c t = \<lparr>name = n, city = c, notes' = t, latitude = None, longitude = None\<rparr>"

text \<open>Truthiness of an \<^verbatim>\<open>Optional[float]\<close>: \<^verbatim>\<open>None\<close> and \<^verbatim>\<open>0.0\<close> are false.\<close>

definition truthy_float :: "real option \<Rightarrow> bool" where
  "truthy_float x = (case x of None \<Rightarrow> False | Some v \<Rightarrow> v \<noteq> 0)"

text \<open>
  The effects of a run, in order: HTTP requests, \<^verbatim>\<open>time.sleep\<close>, the map file
  written by \<^verbatim>\<open>save\<close>, and the console line that reports a map could not be built
  (the other progress lines are left out).
\<close>

record icon =
  icon_color :: string
  icon_name :: string
  icon_prefix :: "string option"

text \<open>
  An f-string is kept as its segments: literal text, an interpolated string, a float
  under \<^verbatim>\<open>:.Nf\<close>, a float under the default conversion.
\<close>

datatype segment = Lit string | Str string | Fixed nat real | Plain real

record marker =
  m_location :: "real \<times> real"
  m_popup :: "segment list"
  m_tooltip :: "string option"
  m_icon :: icon

record map_obj =
  location :: "real \<times> real"
  zoom_start :: nat
  tiles :: "string option"
  markers :: "marker list"

datatype event = Request params | Sleep nat | Save string map_obj | Print string

definition geocode_params :: "string \<Rightarrow> params" where
  "geocode_params query =
     \<lparr>p_q = query, p_format = ''json'', p_limit = 1, p_countrycodes = Some ''fi'',
      p_user_agent = ''RecreationalIslandsFinder/1.0''\<rparr>"

text \<open>
  \<^verbatim>\<open>NominatimGeocoder.geocode\<close>: one request; only \<open>RequestException\<close> is caught.
  The result is \<open>Inr None\<close> for Python's \<^verbatim>\<open>None\<close>.
\<close>

definition geocode :: "service \<Rightarrow> string \<Rightarrow> (exn + pyval option) \<times> event list" where
  "geocode svc query =
     (let p = geocode_params query in
      (case svc p of
         Raised e \<Rightarrow> if e = RequestException then Inr None else Inl e
       | Body results \<Rightarrow>
           if truthy results
           then (case index0 results of Inl e \<Rightarrow> Inl e | Inr r \<Rightarrow> Inr (Some r))
           else Inr None,
       [Request p]))"

definition queries :: "island \<Rightarrow> string list" where
  "queries isle =
     [name isle @ '', '' @ city isle @ '', Finland'',
      name isle @ '', '' @ city isle,
      name isle @ '' Finland'']"

text \<open>
  The \<^verbatim>\<open>for query in queries\<close> loop of \<^verbatim>\<open>find_coordinates\<close>. The result is the
  outcome (an uncaught exception or the returned bool), the island as the call leaves
  it, and the effects.
\<close>

fun try_queries ::
  "str_to_float \<Rightarrow> service \<Rightarrow> island \<Rightarrow> string list \<Rightarrow> (exn + bool) \<times> island \<times> event list"
where
  "try_queries flt svc isle [] = (Inr False, isle, [])"
| "try_queries flt svc isle (query # rest) =
     (case geocode svc query of
        (Inl e, ev) \<Rightarrow> (Inl e, isle, ev)
      | (Inr result, ev) \<Rightarrow>
          (case result of
             None \<Rightarrow>
               (case try_queries flt svc isle rest of
                  (r, isle', ev') \<Rightarrow> (r, isle', ev @ Sleep 1 # ev'))
           | Some res \<Rightarrow>
               if truthy res then
                 (case float_field flt res ''lat'' of
                    Inl e \<Rightarrow> (Inl e, isle, ev)
                  | Inr la \<Rightarrow>
                      (case float_field flt res ''lon'' of
                         Inl e \<Rightarrow> (Inl e, isle\<lparr>latitude := Some la\<rparr>, ev)
                       | Inr lo \<Rightarrow>
                           (Inr True, isle\<lparr>latitude := Some la, longitude := Some lo\<rparr>, ev)))
               else
                 (case try_queries flt svc isle rest of
                    (r, isle', ev') \<Rightarrow> (r, isle', ev @ Sleep 1 # ev'))))"

definition find_coordinates ::
  "str_to_float \<Rightarrow> service \<Rightarrow> island \<Rightarrow> (exn + bool) \<times> island \<times> event list"
where
  "find_coordinates flt svc isle = try_queries flt svc isle (queries isle)"

text \<open>
  The loop of \<^verbatim>\<open>main\<close> over the catalog: each island is handed to
  \<^verbatim>\<open>find_coordinates\<close>, which updates it in place; \<^verbatim>\<open>found_count\<close> counts the
  calls that returned \<^verbatim>\<open>True\<close>. An uncaught exception ends the loop.
\<close>

fun resolve_all ::
  "str_to_float \<Rightarrow> service \<Rightarrow> island list \<Rightarrow> (exn + nat) \<times> island list \<times> event list"
where
  "resolve_all flt svc [] = (Inr 0, [], [])"
| "resolve_all flt svc (isle # rest) =
     (case find_coordinates flt svc isle of
        (Inl e, isle', ev) \<Rightarrow> (Inl e, isle' # rest, ev)
      | (Inr found, isle', ev) \<Rightarrow>
          (case resolve_all flt svc rest of
             (Inl e, rest', ev') \<Rightarrow> (Inl e, isle' # rest', ev @ ev')
           | (Inr n, rest', ev') \<Rightarrow>
               (Inr (if found then Suc n else n), isle' # rest', ev @ ev')))"

text \<open>
  \<^verbatim>\<open>sum(...)\<close> of floats: starts from 0 and adds from the left, each addition rounding
  (CPython up to 3.11; from 3.12 on the builtin also carries the rounding errors along
  and adds them at the end, which changes nothing for up to two summands).
  \<open>py_div s n\<close> is \<^verbatim>\<open>s / n\<close> for a float \<open>s\<close> and the \<^verbatim>\<open>int\<close> \<open>n\<close> of a \<^verbatim>\<open>len\<close>.
\<close>

definition py_sum :: "real list \<Rightarrow> real" where
  "py_sum xs = foldl (\<lambda>acc x. fl (acc + x)) 0 xs"

definition py_div :: "real \<Rightarrow> nat \<Rightarrow> real" where
  "py_div s n = fl (s / real n)"

definition islands_with_coords :: "island list \<Rightarrow> island list" where
  "islands_with_coords islands =
     filter (\<lambda>i. truthy_float (latitude i) \<and> truthy_float (longitude i)) islands"

definition popup_html :: "island \<Rightarrow> segment list" where
  "popup_html isle =
     [Lit ''\<newline>        <div style=\"font-family: Arial; width: 200px;\">\<newline>            <h4 style=\"margin: 0 0 10px 0; color: #2c3e50;\">'',
      Str (name isle),
      Lit ''</h4>\<newline>            <p style=\"margin: 5px 0;\"><b>City:</b> '',
      Str (city isle),
      Lit ''</p>\<newline>            <p style=\"margin: 5px 0;\"><b>Notes:</b> '',
      Str (notes' isle),
      Lit ''</p>\<newline>            <p style=\"margin: 5px 0; font-size: 0.9em; color: #666;\">\<newline>                <b>Coordinates:</b><br>\<newline>                '',
      Fixed 6 (the (latitude isle)),
      Lit '', '',
      Fixed 6 (the (longitude isle)),
      Lit ''\<newline>            </p>\<newline>        </div>\<newline>        '']"

definition island_marker :: "island \<Rightarrow> marker" where
  "island_marker isle =
     \<lparr>m_location = (the (latitude isle), the (longitude isle)),
      m_popup = popup_html isle,
      m_tooltip = Some (name isle),
      m_icon = \<lparr>icon_color = ''blue'', icon_name = ''anchor'', icon_prefix = Some ''fa''\<rparr>\<rparr>"

text \<open>\<^verbatim>\<open>marker.add_to(map_obj)\<close>\<close>

definition add_to :: "marker \<Rightarrow> map_obj \<Rightarrow> map_obj" where
  "add_to mk m = m\<lparr>markers := markers m @ [mk]\<rparr>"

definition create_map :: "island list \<Rightarrow> string \<Rightarrow> event list" where
  "create_map islands output_file =
     (let iwc = islands_with_coords islands in
      if iwc = [] then [Print ''No islands with coordinates to display on map.'']
      else
        let avg_lat = py_div (py_sum (map (\<lambda>i. the (latitude i)) iwc)) (length iwc);
            avg_lon = py_div (py_sum (map (\<lambda>i. the (longitude i)) iwc)) (length iwc);
            map0 = \<lparr>location = (avg_lat, avg_lon), zoom_start = 10,
                    tiles = Some ''OpenStreetMap'', markers = []\<rparr>
        in [Save output_file (foldl (\<lambda>m i. add_to (island_marker i) m) map0 iwc)])"

definition default_output_file :: string where
  "default_output_file = ''recreational_islands_map.html''"

definition catalog :: "island list" where
  "catalog =
     [Island ''Sipoonranta'' ''Sipoo'' ''Kayaking base'',
      Island ''Kaunissaari'' ''Sipoo'' ''Beautiful islands with services'',
      Island ''Pirttisaari'' ''Porvoo'' ''Old artillery base'',
      Island ''Majakkasaari'' ''Porvoo'' ''Lighthouse island'',
      Island ''Luotsisaari'' ''Porvoo'' ''Old pilot base'',
      Island ''Eestiluoto'' ''Sipoo'' ''Nice islands far away'']"

text \<open>
  \<^verbatim>\<open>main\<close>, with the catalog as a parameter: the resolution loop, then
  \<^verbatim>\<open>create_map\<close> when at least one call returned \<^verbatim>\<open>True\<close>.
\<close>

definition main :: "str_to_float \<Rightarrow> service \<Rightarrow> island list \<Rightarrow> (exn + nat) \<times> island list \<times> event list"
where
  "main flt svc islands =
     (case resolve_all flt svc islands of
        (Inl e, islands', ev) \<Rightarrow> (Inl e, islands', ev)
      | (Inr found_count, islands', ev) \<Rightarrow>
          (Inr found_count, islands',
           ev @ (if found_count > 0 then create_map islands' default_output_file else [])))"

section \<open>islands2.py\<close>

record place =
  pl_name :: string
  pl_city :: string
  pl_notes :: string

record item = place +
  it_lat :: real
  it_lon :: real

definition get_coordinates2_params :: "string \<Rightarrow> params" where
  "get_coordinates2_params query =
     \<lparr>p_q = query, p_format = ''json'', p_limit = 1, p_countrycodes = None,
      p_user_agent = ''IslandLocator''\<rparr>"

text \<open>
  \<^verbatim>\<open>get_coordinates(name, city)\<close> of islands2.py: \<^verbatim>\<open>except Exception\<close> catches
  every exception of the request, the decoding, the indexing and the conversions.
\<close>

definition get_coordinates2 ::
  "str_to_float \<Rightarrow> service \<Rightarrow> string \<Rightarrow> string \<Rightarrow> (real option \<times> real option) \<times> event list"
where
  "get_coordinates2 flt svc nm cty =
     (let query = nm @ '', '' @ cty; p = get_coordinates2_params query in
      (case svc p of
         Raised e \<Rightarrow> (None, None)
       | Body data \<Rightarrow>
           if truthy data then
             (case index0 data of
                Inl e \<Rightarrow> (None, None)
              | Inr d \<Rightarrow>
                  (case float_field flt d ''lat'' of
                     Inl e \<Rightarrow> (None, None)
                   | Inr lat \<Rightarrow>
                       (case float_field flt d ''lon'' of
                          Inl e \<Rightarrow> (None, None)
                        | Inr lon \<Rightarrow> (Some lat, Some lon))))
           else (None, None),
       [Request p]))"

text \<open>The module-level resolution loop: \<^verbatim>\<open>coordinates\<close> and the effects.\<close>

fun resolve2 :: "str_to_float \<Rightarrow> service \<Rightarrow> place list \<Rightarrow> item list \<times> event list" where
  "resolve2 flt svc [] = ([], [])"
| "resolve2 flt svc (pl # rest) =
     (case get_coordinates2 flt svc (pl_name pl) (pl_city pl) of
        ((lat, lon), ev) \<Rightarrow>
          (case resolve2 flt svc rest of
             (coordinates, ev') \<Rightarrow>
               ((if truthy_float lat \<and> truthy_float lon
                 then [place.extend pl \<lparr>it_lat = the lat, it_lon = the lon\<rparr>] else [])
                @ coordinates,
                ev @ Sleep 1 # ev')))"

definition popup_text :: "item \<Rightarrow> segment list" where
  "popup_text it =
     [Str (pl_name it), Lit '', '', Str (pl_city it), Lit ''<br>'', Str (pl_notes it),
      Lit ''<br>Lat: '', Plain (it_lat it), Lit ''<br>Lon: '', Plain (it_lon it)]"

definition item_marker :: "item \<Rightarrow> marker" where
  "item_marker it =
     \<lparr>m_location = (it_lat it, it_lon it),
      m_popup = popup_text it,
      m_tooltip = None,
      m_icon = \<lparr>icon_color = ''blue'', icon_name = ''info-sign'', icon_prefix = None\<rparr>\<rparr>"

definition build2 :: "item list \<Rightarrow> event list" where
  "build2 coordinates =
     (if coordinates \<noteq> [] then
        let avg_lat = py_div (py_sum (map it_lat coordinates)) (length coordinates);
            avg_lon = py_div (py_sum (map it_lon coordinates)) (length coordinates);
            m = \<lparr>location = (avg_lat, avg_lon), zoom_start = 11, tiles = None, markers = []\<rparr>
        in [Save ''sipoo_islands_map.html'' (foldl (\<lambda>m it. add_to (item_marker it) m) m coordinates)]
      else [Print ''No coordinates found. Map not created.''])"

definition islands2 :: "str_to_float \<Rightarrow> service \<Rightarrow> place list \<Rightarrow> event list" where
  "islands2 flt svc islands =
     (case resolve2 flt svc islands of (coordinates, ev) \<Rightarrow> ev @ build2 coordinates)"

section \<open>showislands.py\<close>

definition get_coordinates3_params :: "string \<Rightarrow> params" where
  "get_coordinates3_params plc =
     \<lparr>p_q = plc, p_format = ''json'', p_limit = 1, p_countrycodes = None,
      p_user_agent = ''GeoCoderApp''\<rparr>"

text \<open>\<^verbatim>\<open>get_coordinates(place)\<close> of showislands.py: only \<open>RequestException\<close> is caught.\<close>

definition get_coordinates3 ::
  "str_to_float \<Rightarrow> service \<Rightarrow> string \<Rightarrow> (exn + real option \<times> real option) \<times> event list"
where
  "get_coordinates3 flt svc plc =
     (let p = get_coordinates3_params plc in
      (case svc p of
         Raised e \<Rightarrow> if e = RequestException then Inr (None, None) else Inl e
       | Body data \<Rightarrow>
           if truthy data then
             (case index0 data of
                Inl e \<Rightarrow> Inl e
              | Inr d \<Rightarrow>
                  (case float_field flt d ''lat'' of
                     Inl e \<Rightarrow> Inl e
                   | Inr lat \<Rightarrow>
                       (case float_field flt d ''lon'' of
                          Inl e \<Rightarrow> Inl e
                        | Inr lon \<Rightarrow> Inr (Some lat, Some lon))))
           else Inr (None, None),
       [Request p]))"

text \<open>
  \<^verbatim>\<open>coordinates[island] = (lat, lon)\<close> on a dict that keeps insertion order: an
  existing key keeps its position and gets the new value.
\<close>

fun dict_set :: "'k \<Rightarrow> 'v \<Rightarrow> ('k \<times> 'v) list \<Rightarrow> ('k \<times> 'v) list" where
  "dict_set k v [] = [(k, v)]"
| "dict_set k v ((k', v') # kvs) =
     (if k' = k then (k, v) # kvs else (k', v') # dict_set k v kvs)"

fun resolve3 ::
  "str_to_float \<Rightarrow> service \<Rightarrow> (string \<times> real \<times> real) list \<Rightarrow> string list
   \<Rightarrow> exn option \<times> (string \<times> real \<times> real) list \<times> event list"
where
  "resolve3 flt svc coordinates [] = (None, coordinates, [])"
| "resolve3 flt svc coordinates (isle # rest) =
     (case get_coordinates3 flt svc isle of
        (Inl e, ev) \<Rightarrow> (Some e, coordinates, ev)
      | (Inr (lat, lon), ev) \<Rightarrow>
          (case resolve3 flt svc
                  (if truthy_float lat \<and> truthy_float lon
                   then dict_set isle (the lat, the lon) coordinates else coordinates) rest of
             (r, coordinates', ev') \<Rightarrow> (r, coordinates', ev @ Sleep 1 # ev')))"

definition entry_marker :: "string \<times> real \<times> real \<Rightarrow> marker" where
  "entry_marker kv =
     (case kv of (isle, lat, lon) \<Rightarrow>
        \<lparr>m_location = (lat, lon),
         m_popup = [Str isle, Lit ''<br>Lat: '', Plain lat, Lit ''<br>Lon: '', Plain lon],
         m_tooltip = None,
         m_icon = \<lparr>icon_color = ''blue'', icon_name = ''info-sign'', icon_prefix = None\<rparr>\<rparr>)"

definition build3 :: "(string \<times> real \<times> real) list \<Rightarrow> event list" where
  "build3 coordinates =
     (if coordinates \<noteq> [] then
        let avg_lat = py_div (py_sum (map (\<lambda>(_, lat, _). lat) coordinates)) (length coordinates);
            avg_lon = py_div (py_sum (map (\<lambda>(_, _, lon). lon) coordinates)) (length coordinates);
            m = \<lparr>location = (avg_lat, avg_lon), zoom_start = 11, tiles = None, markers = []\<rparr>
        in [Save ''sipoo_islands_map.html'' (foldl (\<lambda>m kv. add_to (entry_marker kv) m) m coordinates)]
      else [Print ''No coordinates found. Map not created.''])"

definition showislands :: "str_to_float \<Rightarrow> service \<Rightarrow> string list \<Rightarrow> exn option \<times> event list" where
  "showislands flt svc islands =
     (case resolve3 flt svc [] islands of
        (Some e, coordinates, ev) \<Rightarrow> (Some e, ev)
      | (None, coordinates, ev) \<Rightarrow> (None, ev @ build3 coordinates))"

section \<open>Mocked service behaviours\<close>

text \<open>
  A mocked service answers each query string with a match carrying the \<^verbatim>\<open>lat\<close> and
  \<^verbatim>\<open>lon\<close> numeric strings, with an empty match list, or with a transport failure.
\<close>

datatype mock_reply = Found string string | NotFound | TransportError

type_synonym mock = "string \<Rightarrow> mock_reply"

fun is_found :: "mock_reply \<Rightarrow> bool" where
  "is_found (Found a b) = True"
| "is_found r = False"

definition match_object :: "string \<Rightarrow> string \<Rightarrow> pyval" where
  "match_object a b = PDict [(''lat'', PStr a), (''lon'', PStr b)]"

definition mock_service :: "mock \<Rightarrow> service" where
  "mock_service m p =
     (case m (p_q p) of
        Found a b \<Rightarrow> Body (PList [match_object a b])
      | NotFound \<Rightarrow> Body (PList [])
      | TransportError \<Rightarrow> Raised RequestException)"

text \<open>The query strings of the requests of a run, in the order they were issued.\<close>

fun requested :: "event list \<Rightarrow> string list" where
  "requested [] = []"
| "requested (Request p # ev) = p_q p # requested ev"
| "requested (e # ev) = requested ev"

definition mock_AX :: mock where
  "mock_AX q = (if q = ''A, X'' then Found ''61.0'' ''24.0''
                else if q = ''A Finland'' then Found ''1.0'' ''2.0'' else NotFound)"

text \<open>The effects of a \<^verbatim>\<open>find_coordinates\<close> call in which every variant fails.\<close>

fun miss_events :: "string list \<Rightarrow> event list" where
  "miss_events [] = []"
| "miss_events (q # qs) = Request (geocode_params q) # Sleep 1 # miss_events qs"

definition island_B :: island where
  "island_B = Island ''B'' ''Y'' ''m''"

definition place_A :: place where
  "place_A = \<lparr>pl_name = ''A'', pl_city = ''X'', pl_notes = ''n''\<rparr>"

definition place_B :: place where
  "place_B = \<lparr>pl_name = ''B'', pl_city = ''Y'', pl_notes = ''m''\<rparr>"

text \<open>
  Pacing by \<^verbatim>\<open>time.sleep\<close>: \<open>paced_from d t ev\<close> holds when every request of \<open>ev\<close> is issued
  after sleeps of at least \<open>d\<close> seconds since the request before it, \<open>t\<close> being the seconds
  slept so far; \<open>paced d ev\<close> puts no condition on the first request.
\<close>

fun paced_from :: "nat \<Rightarrow> nat \<Rightarrow> event list \<Rightarrow> bool" where
  "paced_from d t [] = True"
| "paced_from d t (Request p # ev) = (d \<le> t \<and> paced_from d 0 ev)"
| "paced_from d t (Sleep n # ev) = paced_from d (t + n) ev"
| "paced_from d t (e # ev) = paced_from d t ev"

definition paced :: "nat \<Rightarrow> event list \<Rightarrow> bool" where
  "paced d ev = paced_from d d ev"

text \<open>Concrete inputs used at the properties below.\<close>

definition mock_all_found :: mock where
  "mock_all_found q = Found ''61.0'' ''24.0''"

text \<open>The map files written by a run.\<close>

fun saved :: "event list \<Rightarrow> (string \<times> map_obj) list" where
  "saved [] = []"
| "saved (Save f m # ev) = (f, m) # saved ev"
| "saved (e # ev) = saved ev"

definition island_at :: "string \<Rightarrow> real \<Rightarrow> real \<Rightarrow> island" where
  "island_at n la lo = (Island n ''X'' ''n'')\<lparr>latitude := Some la, longitude := Some lo\<rparr>"

definition item_at :: "string \<Rightarrow> real \<Rightarrow> real \<Rightarrow> item" where
  "item_at n la lo =
     \<lparr>pl_name = n, pl_city = ''X'', pl_notes = ''n'', it_lat = la, it_lon = lo\<rparr>"

text \<open>
  The replies that \<^verbatim>\<open>geocode\<close> turns into \<^verbatim>\<open>None\<close>: an exception of the
  \<open>RequestException\<close> family (connection failure, timeout, HTTP error status, a body
  that \<^verbatim>\<open>requests\<close> cannot decode) and a decoded body that is falsy (the empty list).
\<close>

fun ordinary_failure :: "reply \<Rightarrow> bool" where
  "ordinary_failure (Raised e) = (e = RequestException)"
| "ordinary_failure (Body v) = (\<not> truthy v)"

text \<open>A descriptor has both coordinates or neither.\<close>

definition paired :: "island \<Rightarrow> bool" where
  "paired isle = ((latitude isle = None) = (longitude isle = None))"

text \<open>
  Services for concrete runs: an error object instead of a match list, a match without
  \<^verbatim>\<open>lon\<close>, and a service that is down.
\<close>

definition svc_error_object :: service where
  "svc_error_object p = Body (PDict [(''error'', PStr ''Unable to geocode'')])"

definition svc_lat_only :: service where
  "svc_lat_only p = Body (PList [PDict [(''lat'', PStr ''61.0'')]])"

definition svc_down :: service where
  "svc_down p = Raised RequestException"

text \<open>
  The places that pass the filter of the resolution loops of islands2.py and
  showislands.py: the lookup returned a latitude and a longitude that are both truthy.
\<close>

definition resolved2 :: "str_to_float \<Rightarrow> service \<Rightarrow> place \<Rightarrow> bool" where
  "resolved2 flt svc pl =
     (case fst (get_coordinates2 flt svc (pl_name pl) (pl_city pl)) of
        (lat, lon) \<Rightarrow> truthy_float lat \<and> truthy_float lon)"

definition resolved3 :: "str_to_float \<Rightarrow> service \<Rightarrow> string \<Rightarrow> bool" where
  "resolved3 flt svc s =
     (case fst (get_coordinates3 flt svc s) of
        Inl e \<Rightarrow> False
      | Inr (lat, lon) \<Rightarrow> truthy_float lat \<and> truthy_float lon)"

text \<open>A service that places every query on the equator, and a catalog of place strings.\<close>

definition mock_zero :: mock where
  "mock_zero q = Found ''0.0'' ''24.0''"

definition catalog3 :: "string list" where
  "catalog3 = [''A, X'', ''B'', ''A Finland'']"




section \<open>Properties\<close>

subsection \<open>Evaluation lemmas\<close>

lemma requested_append: "requested (xs @ ys) = requested xs @ requested ys"
  by (induction xs rule: requested.induct) simp_all

lemmas fl_eval =
  fl_def binade_def pow2_def round_half_even_def Let_def bitlen_def compute_floorlog

lemma fl_examples:
  "fl 61 = 61" "fl 24 = 24" "fl 1 = 1" "fl 2 = 2" "fl 60 = 60" "fl 25 = 25" "fl 0 = 0"
  by (simp_all add: fl_eval)

text \<open>
  \<open>binade\<close> finds the power of two below its argument, and \<open>fl\<close> moves its argument by
  half the distance of two neighbouring floats at most.
\<close>

lemma pow2_pos: "0 < pow2 e"
  by (simp add: pow2_def)

lemma round_half_even_near: "\<bar>of_int (round_half_even y) - y\<bar> \<le> 1 / 2"
  unfolding round_half_even_def Let_def by (auto; linarith)

lemma binade_bounds:
  assumes "0 < x"
  shows "pow2 (binade x) \<le> x \<and> x < pow2 (binade x + 1)"
proof (cases "1 \<le> x")
  case True
  define n where "n = \<lfloor>x\<rfloor>"
  have n: "1 \<le> n" using True by (simp add: n_def)
  then have b: "2 ^ nat (bitlen n - 1) \<le> n \<and> n < 2 ^ nat (bitlen n)"
    using bitlen_bounds [of n] by simp
  have bl: "1 \<le> bitlen n" using n by (simp add: bitlen_def floorlog_def)
  have "real_of_int (2 ^ nat (bitlen n - 1)) \<le> of_int n" using b by linarith
  also have "\<dots> \<le> x" by (simp add: n_def)
  finally have lo: "2 ^ nat (bitlen n - 1) \<le> x" by simp
  have "n + 1 \<le> 2 ^ nat (bitlen n)" using b by linarith
  then have "real_of_int (n + 1) \<le> real_of_int (2 ^ nat (bitlen n))" by linarith
  moreover have "x < of_int (n + 1)" by (simp add: n_def)
  ultimately have hi: "x < 2 ^ nat (bitlen n)" by simp
  from lo hi bl True show ?thesis by (simp add: binade_def pow2_def n_def)
next
  case False
  define y where "y = 1 / x"
  define m where "m = \<lceil>y\<rceil> - 1"
  from False assms have y1: "1 < y" by (simp add: y_def)
  then have m: "1 \<le> m" unfolding m_def by linarith
  then have b: "2 ^ nat (bitlen m - 1) \<le> m \<and> m < 2 ^ nat (bitlen m)"
    using bitlen_bounds [of m] by simp
  have bl: "1 \<le> bitlen m" using m by (simp add: bitlen_def floorlog_def)
  have "y \<le> of_int (m + 1)" by (simp add: m_def)
  also have "real_of_int (m + 1) \<le> real_of_int (2 ^ nat (bitlen m))" using b by linarith
  finally have "y \<le> 2 ^ nat (bitlen m)" by simp
  then have lo: "1 / 2 ^ nat (bitlen m) \<le> x"
    using assms by (simp add: y_def field_simps)
  have "real_of_int (2 ^ nat (bitlen m - 1)) \<le> of_int m" using b by linarith
  also have "real_of_int m < y" unfolding m_def by linarith
  finally have "2 ^ nat (bitlen m - 1) < y" by simp
  then have hi: "x < 1 / 2 ^ nat (bitlen m - 1)"
    using assms by (simp add: y_def field_simps)
  have "pow2 (- bitlen m + 1) = 1 / 2 ^ nat (bitlen m - 1)"
    using bl by (cases "bitlen m = 1") (simp_all add: pow2_def)
  with lo hi bl False show ?thesis by (simp add: binade_def pow2_def y_def m_def)
qed

lemma fl_near:
  "\<bar>fl x - x\<bar> \<le> pow2 (max (binade \<bar>x\<bar>) (- 1022) - 52) / 2"
proof (cases "x = 0")
  case True
  then show ?thesis using pow2_pos [of "max (binade \<bar>x\<bar>) (- 1022) - 52"] by (simp add: fl_def)
next
  case False
  define u where "u = pow2 (max (binade \<bar>x\<bar>) (- 1022) - 52)"
  have u: "0 < u" by (simp add: u_def pow2_pos)
  define k where "k = round_half_even (\<bar>x\<bar> / u)"
  have "\<bar>of_int k - \<bar>x\<bar> / u\<bar> \<le> 1 / 2" unfolding k_def by (rule round_half_even_near)
  then have "\<bar>of_int k - \<bar>x\<bar> / u\<bar> * u \<le> 1 / 2 * u"
    using u by (simp only: mult_le_cancel_right) simp
  moreover have "(of_int k - \<bar>x\<bar> / u) * u = of_int k * u - \<bar>x\<bar>"
    using u by (simp add: left_diff_distrib)
  then have "\<bar>of_int k - \<bar>x\<bar> / u\<bar> * u = \<bar>of_int k * u - \<bar>x\<bar>\<bar>"
    using u abs_mult [of "of_int k - \<bar>x\<bar> / u" u] by simp
  ultimately have a: "\<bar>of_int k * u - \<bar>x\<bar>\<bar> \<le> u / 2" by simp
  have "fl x = sgn x * (of_int k * u)" using False by (simp add: fl_def Let_def u_def k_def)
  then have "fl x - x = sgn x * (of_int k * u - \<bar>x\<bar>)"
    by (simp add: right_diff_distrib sgn_real_def)
  then have "\<bar>fl x - x\<bar> = \<bar>of_int k * u - \<bar>x\<bar>\<bar>"
    using False by (simp add: abs_mult sgn_real_def)
  with a show ?thesis by (simp add: u_def)
qed

text \<open>
  The floats written \<^verbatim>\<open>60.2\<close> and \<^verbatim>\<open>0.3\<close> in Python, and a sum of three floats whose
  rounded mean is one float above the float nearest to the mean.
\<close>

lemma fl_values:
  "fl 60.2 = 8472396798990746 / 2 ^ 47"
  "fl (- 0.3) = - (5404319552844595 / 2 ^ 54)"
  by (simp_all add: fl_eval)

lemma py_sum_rounds:
  "py_div (py_sum [fl 60.1, fl 60.2, fl 60.3]) 3 = 8472396798990747 / 2 ^ 47"
  "fl ((fl 60.1 + fl 60.2 + fl 60.3) / 3) = 8472396798990746 / 2 ^ 47"
  by (simp_all add: py_sum_def py_div_def fl_eval)

lemma dec_float_examples:
  "dec_float ''61.0'' = Some 61" "dec_float ''24.0'' = Some 24"
  by (simp_all add: dec_float_def unsigned_dec_def digit_val_def fl_examples)

lemma geocode_mock_miss:
  "\<not> is_found (m q) \<Longrightarrow> geocode (mock_service m) q = (Inr None, [Request (geocode_params q)])"
  by (cases "m q") (simp_all add: geocode_def mock_service_def geocode_params_def)

lemma geocode_mock_found:
  "m q = Found a b \<Longrightarrow>
   geocode (mock_service m) q = (Inr (Some (match_object a b)), [Request (geocode_params q)])"
  by (simp add: geocode_def mock_service_def geocode_params_def)

lemma float_field_match_object:
  "float_field flt (match_object a b) ''lat'' = (case flt a of None \<Rightarrow> Inl ValueError | Some x \<Rightarrow> Inr x)"
  "float_field flt (match_object a b) ''lon'' = (case flt b of None \<Rightarrow> Inl ValueError | Some x \<Rightarrow> Inr x)"
  by (simp_all add: float_field_def match_object_def)

lemma truthy_match_object: "truthy (match_object a b)"
  by (simp add: match_object_def)

subsection \<open>The first matching variant wins\<close>

lemma try_queries_mock:
  assumes "List.find (\<lambda>q. is_found (m q)) qs = Some q"
    and "m q = Found a b" and "flt a = Some la" and "flt b = Some lo"
  shows "\<exists>ev. try_queries flt (mock_service m) isle qs =
            (Inr True, isle\<lparr>latitude := Some la, longitude := Some lo\<rparr>, ev)
          \<and> requested ev = takeWhile (\<lambda>q. \<not> is_found (m q)) qs @ [q]"
  using assms
proof (induction qs)
  case Nil
  then show ?case by simp
next
  case (Cons x qs)
  show ?case
  proof (cases "is_found (m x)")
    case True
    with Cons.prems have "x = q" by simp
    with Cons.prems show ?thesis
      by (simp add: geocode_mock_found float_field_match_object truthy_match_object
          geocode_params_def)
  next
    case False
    with Cons.prems have "List.find (\<lambda>q. is_found (m q)) qs = Some q" by simp
    from Cons.IH[OF this Cons.prems(2-4)] obtain ev where
      "try_queries flt (mock_service m) isle qs =
         (Inr True, isle\<lparr>latitude := Some la, longitude := Some lo\<rparr>, ev)"
      "requested ev = takeWhile (\<lambda>q. \<not> is_found (m q)) qs @ [q]" by blast
    with False show ?thesis
      by (simp add: geocode_mock_miss geocode_params_def)
  qed
qed

text \<open>
  C1. Let a mocked service mark at least one query variant of an island as matching,
  and let \<open>q\<close> be the first such variant in the order of \<open>queries\<close> (name, city and
  country; name and city; name and country), with numeric strings that \<^verbatim>\<open>float\<close>
  reads as \<open>la\<close> and \<open>lo\<close>. Then \<open>find_coordinates\<close> returns \<^verbatim>\<open>True\<close>, stores
  \<open>la\<close> and \<open>lo\<close> in the island, and the requests it issued are the variants before
  \<open>q\<close> followed by \<open>q\<close>: no variant after the first success is looked up.
\<close>

theorem first_match_wins:
  assumes "List.find (\<lambda>q. is_found (m q)) (queries isle) = Some q"
    and "m q = Found a b" and "flt a = Some la" and "flt b = Some lo"
  shows "\<exists>ev. find_coordinates flt (mock_service m) isle =
            (Inr True, isle\<lparr>latitude := Some la, longitude := Some lo\<rparr>, ev)
          \<and> requested ev = takeWhile (\<lambda>q. \<not> is_found (m q)) (queries isle) @ [q]"
  unfolding find_coordinates_def using assms by (rule try_queries_mock)

theorem first_match_wins_witness:
  "\<exists>ev. find_coordinates dec_float (mock_service mock_AX) (Island ''A'' ''X'' ''n'') =
          (Inr True, (Island ''A'' ''X'' ''n'')\<lparr>latitude := Some 61, longitude := Some 24\<rparr>, ev)
        \<and> requested ev = [''A, X, Finland'', ''A, X'']"
  using first_match_wins [of mock_AX "Island ''A'' ''X'' ''n''" "''A, X''" "''61.0''" "''24.0''"
      dec_float 61 24]
  by (simp add: queries_def Island_def mock_AX_def dec_float_examples)

subsection \<open>A place that no variant finds stays without coordinates\<close>

lemma try_queries_all_miss:
  "\<forall>q\<in>set qs. \<not> is_found (m q) \<Longrightarrow>
   try_queries flt (mock_service m) isle qs = (Inr False, isle, miss_events qs)"
  by (induction qs) (simp_all add: geocode_mock_miss)

lemma requested_miss_events: "requested (miss_events qs) = qs"
  by (induction qs) (simp_all add: geocode_params_def)

lemma resolve_all_length:
  "length (fst (snd (resolve_all flt svc islands))) = length islands"
  by (induction islands) (auto split: prod.splits sum.splits)

lemma resolve_all_nth_unchanged:
  assumes "i < length islands"
    and "fst (snd (find_coordinates flt svc (islands ! i))) = islands ! i"
  shows "fst (snd (resolve_all flt svc islands)) ! i = islands ! i"
  using assms
proof (induction islands arbitrary: i)
  case Nil
  then show ?case by simp
next
  case (Cons x rest)
  show ?case
  proof (cases i)
    case 0
    with Cons.prems show ?thesis
      by (auto split: prod.splits sum.splits)
  next
    case (Suc j)
    with Cons.prems have "fst (snd (resolve_all flt svc rest)) ! j = rest ! j"
      by (intro Cons.IH) simp_all
    with Suc show ?thesis
      by (auto split: prod.splits sum.splits)
  qed
qed

lemma get_coordinates2_miss:
  "\<not> is_found (m (nm @ '', '' @ cty)) \<Longrightarrow>
   fst (get_coordinates2 flt (mock_service m) nm cty) = (None, None)"
  by (cases "m (nm @ '', '' @ cty)")
    (simp_all add: get_coordinates2_def get_coordinates2_params_def mock_service_def)

lemma resolve2_items:
  "it \<in> set (fst (resolve2 flt svc islands)) \<Longrightarrow>
   \<exists>pl\<in>set islands. pl_name it = pl_name pl \<and> pl_city it = pl_city pl \<and>
     truthy_float (fst (fst (get_coordinates2 flt svc (pl_name pl) (pl_city pl))))"
  by (induction islands) (auto split: prod.splits if_splits simp: place.defs)

lemma islands2_not_found_not_listed:
  fixes pl :: place
  assumes "m (pl_name pl @ '', '' @ pl_city pl) = NotFound"
    and "it \<in> set (fst (resolve2 flt (mock_service m) islands))"
  shows "\<not> (pl_name it = pl_name pl \<and> pl_city it = pl_city pl)"
proof
  assume eq: "pl_name it = pl_name pl \<and> pl_city it = pl_city pl"
  from assms(2) obtain p :: place where "pl_name it = pl_name p" "pl_city it = pl_city p"
    "truthy_float (fst (fst (get_coordinates2 flt (mock_service m) (pl_name p) (pl_city p))))"
    using resolve2_items by blast
  moreover have "fst (get_coordinates2 flt (mock_service m) (pl_name pl) (pl_city pl)) = (None, None)"
    using assms(1) by (simp add: get_coordinates2_miss)
  ultimately show False using eq by (simp add: truthy_float_def)
qed

text \<open>
  C2. Let every query variant of the \<open>i\<close>-th island of the catalog yield
  \<open>NotFound\<close>, the island being as \<open>Island\<close> creates it (no coordinates). Then
  \<open>find_coordinates\<close> returns \<^verbatim>\<open>False\<close> for it, and after the resolution loop of
  \<^verbatim>\<open>main\<close> (however it ends for the other islands) the catalog has its length and
  the \<open>i\<close>-th island still has neither latitude nor longitude. In islands2.py, with a
  mock \<open>m'\<close> that yields \<open>NotFound\<close> for the one query of a place, \<open>get_coordinates\<close>
  returns \<^verbatim>\<open>(None, None)\<close> and no entry of \<^verbatim>\<open>coordinates\<close> stems from that place.
\<close>

theorem all_not_found_stays_absent:
  fixes pl :: place
  assumes "i < length islands"
    and "\<forall>q\<in>set (queries (islands ! i)). m q = NotFound"
    and "latitude (islands ! i) = None" and "longitude (islands ! i) = None"
    and "m' (pl_name pl @ '', '' @ pl_city pl) = NotFound"
  shows "fst (find_coordinates flt (mock_service m) (islands ! i)) = Inr False
       \<and> length (fst (snd (resolve_all flt (mock_service m) islands))) = length islands
       \<and> latitude (fst (snd (resolve_all flt (mock_service m) islands)) ! i) = None
       \<and> longitude (fst (snd (resolve_all flt (mock_service m) islands)) ! i) = None
       \<and> fst (get_coordinates2 flt (mock_service m') (pl_name pl) (pl_city pl)) = (None, None)
       \<and> (\<forall>it\<in>set (fst (resolve2 flt (mock_service m') places)).
            \<not> (pl_name it = pl_name pl \<and> pl_city it = pl_city pl))"
proof -
  from assms(2) have miss: "\<forall>q\<in>set (queries (islands ! i)). \<not> is_found (m q)" by simp
  then have fc: "find_coordinates flt (mock_service m) (islands ! i) =
      (Inr False, islands ! i, miss_events (queries (islands ! i)))"
    unfolding find_coordinates_def by (rule try_queries_all_miss)
  then have "fst (snd (resolve_all flt (mock_service m) islands)) ! i = islands ! i"
    using assms(1) by (intro resolve_all_nth_unchanged) simp_all
  with fc assms(3,4) have rec:
    "fst (find_coordinates flt (mock_service m) (islands ! i)) = Inr False
       \<and> length (fst (snd (resolve_all flt (mock_service m) islands))) = length islands
       \<and> latitude (fst (snd (resolve_all flt (mock_service m) islands)) ! i) = None
       \<and> longitude (fst (snd (resolve_all flt (mock_service m) islands)) ! i) = None"
    by (simp add: resolve_all_length)
  have g: "fst (get_coordinates2 flt (mock_service m') (pl_name pl) (pl_city pl)) = (None, None)"
    using assms(5) by (simp add: get_coordinates2_miss)
  have "\<forall>it\<in>set (fst (resolve2 flt (mock_service m') places)).
            \<not> (pl_name it = pl_name pl \<and> pl_city it = pl_city pl)"
    using islands2_not_found_not_listed [of m' pl, OF assms(5)] by blast
  with rec g show ?thesis by blast
qed

theorem all_not_found_stays_absent_witness:
  "fst (find_coordinates dec_float (mock_service mock_AX) island_B) = Inr False
   \<and> latitude (fst (snd (resolve_all dec_float (mock_service mock_AX)
        [Island ''A'' ''X'' ''n'', island_B])) ! 1) = None
   \<and> longitude (fst (snd (resolve_all dec_float (mock_service mock_AX)
        [Island ''A'' ''X'' ''n'', island_B])) ! 1) = None
   \<and> fst (get_coordinates2 dec_float (mock_service mock_AX) ''B'' ''Y'') = (None, None)
   \<and> list_all (\<lambda>it. \<not> (pl_name it = ''B'' \<and> pl_city it = ''Y''))
        (fst (resolve2 dec_float (mock_service mock_AX) [place_A, place_B]))"
  using all_not_found_stays_absent [of 1 "[Island ''A'' ''X'' ''n'', island_B]" mock_AX
      mock_AX place_B dec_float "[place_A, place_B]"]
  by (simp add: queries_def Island_def island_B_def mock_AX_def place_B_def list_all_iff)

subsection \<open>Pacing of the requests\<close>

lemma resolve2_paced: "1 \<le> t \<Longrightarrow> paced_from 1 t (snd (resolve2 flt svc islands))"
  by (induction islands arbitrary: t)
     (auto split: prod.splits simp: get_coordinates2_def Let_def)

lemma try_queries_paced:
  "1 \<le> t \<Longrightarrow> paced_from 1 t (snd (snd (try_queries flt svc isle qs)))"
  by (induction qs arbitrary: t)
     (auto split: prod.splits sum.splits option.splits simp: geocode_def Let_def)

text \<open>
  C3. The requests of one \<open>find_coordinates\<close> call are paced (\<open>try_queries_paced\<close>),
  and so are all requests of islands2.py (\<open>resolve2_paced\<close>), which sleeps after every
  lookup. In recreational\_islands.py the success branch returns before
  \<^verbatim>\<open>time.sleep(1)\<close>, and \<^verbatim>\<open>main\<close> does not sleep between islands: with a service that
  matches the first variant of every island, the run over two islands issues its two
  requests with no wait between them.
\<close>

theorem rate_limit_skipped_after_success:
  "snd (snd (resolve_all dec_float (mock_service mock_all_found)
       [Island ''A'' ''X'' ''n'', Island ''B'' ''Y'' ''m''])) =
     [Request (geocode_params ''A, X, Finland''), Request (geocode_params ''B, Y, Finland'')]
   \<and> \<not> paced 1 (snd (snd (resolve_all dec_float (mock_service mock_all_found)
       [Island ''A'' ''X'' ''n'', Island ''B'' ''Y'' ''m''])))"
  by (simp add: find_coordinates_def queries_def Island_def geocode_mock_found mock_all_found_def
      float_field_match_object truthy_match_object dec_float_examples paced_def)

subsection \<open>The map: center and markers\<close>

lemma foldl_add_to:
  "foldl (\<lambda>m i. add_to (f i) m) m0 xs = m0\<lparr>markers := markers m0 @ map f xs\<rparr>"
  by (induction xs arbitrary: m0) (simp_all add: add_to_def)

lemma create_map_some:
  "islands_with_coords islands \<noteq> [] \<Longrightarrow>
   create_map islands file =
    [Save file \<lparr>location =
        (py_div (py_sum (map (\<lambda>i. the (latitude i)) (islands_with_coords islands)))
           (length (islands_with_coords islands)),
         py_div (py_sum (map (\<lambda>i. the (longitude i)) (islands_with_coords islands)))
           (length (islands_with_coords islands))),
      zoom_start = 10, tiles = Some ''OpenStreetMap'',
      markers = map island_marker (islands_with_coords islands)\<rparr>]"
  by (simp add: create_map_def Let_def foldl_add_to)

lemma build2_some:
  "coordinates \<noteq> [] \<Longrightarrow>
   build2 coordinates =
    [Save ''sipoo_islands_map.html'' \<lparr>location =
        (py_div (py_sum (map it_lat coordinates)) (length coordinates),
         py_div (py_sum (map it_lon coordinates)) (length coordinates)),
      zoom_start = 11, tiles = None, markers = map item_marker coordinates\<rparr>]"
  by (simp add: build2_def Let_def foldl_add_to)

lemma build3_some:
  "coordinates \<noteq> [] \<Longrightarrow>
   build3 coordinates =
    [Save ''sipoo_islands_map.html'' \<lparr>location =
        (py_div (py_sum (map (\<lambda>(_, lat, _). lat) coordinates)) (length coordinates),
         py_div (py_sum (map (\<lambda>(_, _, lon). lon) coordinates)) (length coordinates)),
      zoom_start = 11, tiles = None, markers = map entry_marker coordinates\<rparr>]"
  by (simp add: build3_def Let_def foldl_add_to)

lemma saved_append: "saved (xs @ ys) = saved xs @ saved ys"
  by (induction xs rule: saved.induct) simp_all

lemma saved_try_queries: "saved (snd (snd (try_queries flt svc isle qs))) = []"
  by (induction qs)
     (auto split: prod.splits sum.splits option.splits simp: geocode_def Let_def saved_append)

lemma saved_resolve_all: "saved (snd (snd (resolve_all flt svc islands))) = []"
proof (induction islands)
  case Nil
  then show ?case by simp
next
  case (Cons x rest)
  have "saved (snd (snd (find_coordinates flt svc x))) = []"
    by (simp add: find_coordinates_def saved_try_queries)
  with Cons show ?case
    by (auto split: prod.splits sum.splits simp: saved_append)
qed

lemma saved_resolve2: "saved (snd (resolve2 flt svc places)) = []"
  by (induction places)
     (auto split: prod.splits simp: get_coordinates2_def Let_def saved_append)

lemma main_islands: "fst (snd (main flt svc islands)) = fst (snd (resolve_all flt svc islands))"
  by (auto simp: main_def split: prod.splits sum.splits)









text \<open>
  C5. When no island passes the filter, \<open>create_map\<close> only prints that there is
  nothing to display and returns: no file is saved. A run of \<^verbatim>\<open>main\<close> after which no
  island of the catalog passes the filter saves no file either. In islands2.py an empty
  \<^verbatim>\<open>coordinates\<close> list leads to the printed line and to no saved file.
\<close>

theorem no_resolved_place_no_map:
  assumes "islands_with_coords islands = []"
    and "islands_with_coords (fst (snd (main flt svc cat))) = []"
    and "fst (resolve2 flt' svc' places) = []"
  shows "create_map islands file = [Print ''No islands with coordinates to display on map.'']
       \<and> saved (snd (snd (main flt svc cat))) = []
       \<and> islands2 flt' svc' places =
           snd (resolve2 flt' svc' places) @ [Print ''No coordinates found. Map not created.'']
       \<and> saved (islands2 flt' svc' places) = []"
proof -
  have a: "create_map islands file = [Print ''No islands with coordinates to display on map.'']"
    using assms(1) by (simp add: create_map_def)
  from assms(2) have "islands_with_coords (fst (snd (resolve_all flt svc cat))) = []"
    by (simp add: main_islands)
  then have b: "saved (snd (snd (main flt svc cat))) = []"
    by (auto simp: main_def create_map_def saved_append split: prod.splits sum.splits
        dest: arg_cong [where f = "\<lambda>r. saved (snd (snd r))"] simp: saved_resolve_all)
  have c: "islands2 flt' svc' places =
           snd (resolve2 flt' svc' places) @ [Print ''No coordinates found. Map not created.'']"
    using assms(3) by (cases "resolve2 flt' svc' places") (simp add: islands2_def build2_def)
  then have "saved (islands2 flt' svc' places) = []"
    by (simp add: saved_append saved_resolve2)
  with a b c show ?thesis by simp
qed

theorem no_resolved_place_no_map_witness:
  "create_map [island_B] ''map.html'' = [Print ''No islands with coordinates to display on map.'']
   \<and> saved (snd (snd (main dec_float (mock_service mock_AX) [island_B]))) = []
   \<and> saved (islands2 dec_float (mock_service mock_AX) [place_B]) = []"
  using no_resolved_place_no_map [of "[island_B]" dec_float "mock_service mock_AX" "[island_B]"
      dec_float "mock_service mock_AX" "[place_B]" "''map.html''"]
  by (simp add: islands_with_coords_def truthy_float_def island_B_def Island_def place_B_def
      main_def find_coordinates_def queries_def geocode_mock_miss mock_AX_def
      get_coordinates2_def get_coordinates2_params_def mock_service_def)

subsection \<open>Lookup failures\<close>

lemma geocode_ordinary_failure:
  "ordinary_failure (svc (geocode_params q)) \<Longrightarrow>
   geocode svc q = (Inr None, [Request (geocode_params q)])"
  by (cases "svc (geocode_params q)") (simp_all add: geocode_def)

lemma try_queries_ordinary_failures:
  "\<forall>q\<in>set qs. ordinary_failure (svc (geocode_params q)) \<Longrightarrow>
   try_queries flt svc isle qs = (Inr False, isle, miss_events qs)"
  by (induction qs) (simp_all add: geocode_ordinary_failure)

text \<open>
  C6, as stated, fails: \<^verbatim>\<open>geocode\<close> catches \<open>RequestException\<close> only. A body that
  decodes to a JSON object makes \<^verbatim>\<open>results[0]\<close> raise \<^verbatim>\<open>KeyError\<close>, which nothing
  catches: the run ends after the first request, with the other variants and the other
  island never looked up.
\<close>

theorem geocode_raises_on_malformed_body:
  "fst (geocode svc_error_object ''A, X, Finland'') = Inl KeyError
   \<and> fst (main dec_float svc_error_object [Island ''A'' ''X'' ''n'', Island ''B'' ''Y'' ''m''])
       = Inl KeyError
   \<and> requested (snd (snd (main dec_float svc_error_object
        [Island ''A'' ''X'' ''n'', Island ''B'' ''Y'' ''m'']))) = [''A, X, Finland'']"
  by (simp add: geocode_def svc_error_object_def main_def find_coordinates_def queries_def
      Island_def geocode_params_def)

text \<open>
  C6, amended. When the reply to a query is an ordinary failure (an exception of the
  \<open>RequestException\<close> family, or a falsy decoded body), \<^verbatim>\<open>geocode\<close> returns
  \<^verbatim>\<open>None\<close> without raising, and the loop of \<open>find_coordinates\<close> sleeps and goes on
  with the remaining variants exactly as it would without that variant. When every
  variant of an island fails so, \<open>find_coordinates\<close> returns \<^verbatim>\<open>False\<close> after
  trying all of them and the loop of \<^verbatim>\<open>main\<close> goes on with the remaining islands.
\<close>

theorem ordinary_failures_do_not_raise:
  assumes "ordinary_failure (svc (geocode_params q))"
    and "\<forall>q'\<in>set (queries isle'). ordinary_failure (svc' (geocode_params q'))"
  shows "geocode svc q = (Inr None, [Request (geocode_params q)])
       \<and> try_queries flt svc isle (q # qs) =
           (case try_queries flt svc isle qs of
              (r, isle1, ev) \<Rightarrow> (r, isle1, Request (geocode_params q) # Sleep 1 # ev))
       \<and> find_coordinates flt svc' isle' = (Inr False, isle', miss_events (queries isle'))
       \<and> resolve_all flt svc' (isle' # rest) =
           (case resolve_all flt svc' rest of
              (r, rest', ev) \<Rightarrow> (r, isle' # rest', miss_events (queries isle') @ ev))"
proof -
  have a: "geocode svc q = (Inr None, [Request (geocode_params q)])"
    using assms(1) by (rule geocode_ordinary_failure)
  then have b: "try_queries flt svc isle (q # qs) =
           (case try_queries flt svc isle qs of
              (r, isle1, ev) \<Rightarrow> (r, isle1, Request (geocode_params q) # Sleep 1 # ev))"
    by (simp split: prod.splits)
  have c: "find_coordinates flt svc' isle' = (Inr False, isle', miss_events (queries isle'))"
    unfolding find_coordinates_def using assms(2) by (rule try_queries_ordinary_failures)
  then have "resolve_all flt svc' (isle' # rest) =
           (case resolve_all flt svc' rest of
              (r, rest', ev) \<Rightarrow> (r, isle' # rest', miss_events (queries isle') @ ev))"
    by (simp split: prod.splits sum.splits)
  with a b c show ?thesis by simp
qed

theorem ordinary_failures_do_not_raise_witness:
  "geocode svc_down ''A, X'' = (Inr None, [Request (geocode_params ''A, X'')])
   \<and> find_coordinates dec_float svc_down island_B =
       (Inr False, island_B, miss_events [''B, Y, Finland'', ''B, Y'', ''B Finland''])
   \<and> fst (resolve_all dec_float svc_down [island_B, island_B]) = Inr 0"
  using ordinary_failures_do_not_raise [of svc_down "''A, X''" island_B svc_down dec_float
      island_B "[]" "[island_B]"]
  by (simp add: svc_down_def queries_def island_B_def Island_def find_coordinates_def
      geocode_def)

subsection \<open>Latitude and longitude are assigned one after the other\<close>

lemma try_queries_paired:
  "paired isle \<Longrightarrow> fst (try_queries flt svc isle qs) = Inr b \<Longrightarrow>
   paired (fst (snd (try_queries flt svc isle qs)))"
  by (induction qs)
     (auto split: prod.splits sum.splits option.splits if_splits simp: paired_def)

lemma resolve_all_paired:
  "list_all paired islands \<Longrightarrow> fst (resolve_all flt svc islands) = Inr n \<Longrightarrow>
   list_all paired (fst (snd (resolve_all flt svc islands)))"
proof (induction islands arbitrary: n)
  case Nil
  then show ?case by simp
next
  case (Cons x rest)
  obtain r x' ev where fc: "find_coordinates flt svc x = (r, x', ev)"
    by (cases "find_coordinates flt svc x")
  obtain r2 rest' ev2 where ra: "resolve_all flt svc rest = (r2, rest', ev2)"
    by (cases "resolve_all flt svc rest")
  from Cons.prems(2) fc ra obtain b m where r: "r = Inr b" and r2: "r2 = Inr m"
    by (auto split: sum.splits)
  from Cons.prems(1) fc r have "paired x'"
    using try_queries_paired [of x flt svc "queries x" b]
    by (simp add: find_coordinates_def)
  moreover from Cons.prems(1) ra r2 have "list_all paired rest'"
    using Cons.IH [of m] by simp
  ultimately show ?case using fc ra r r2 by simp
qed

text \<open>
  C9, as stated, fails: \<open>find_coordinates\<close> assigns \<^verbatim>\<open>latitude\<close>, then converts
  \<^verbatim>\<open>result['lon']\<close>. For a match without \<^verbatim>\<open>lon\<close> the conversion raises
  \<^verbatim>\<open>KeyError\<close> and the run ends with latitude set and longitude absent.
\<close>

theorem latitude_set_alone_on_exception:
  "find_coordinates dec_float svc_lat_only (Island ''A'' ''X'' ''n'') =
     (Inl KeyError,
      \<lparr>name = ''A'', city = ''X'', notes' = ''n'', latitude = Some 61, longitude = None\<rparr>,
      [Request (geocode_params ''A, X, Finland'')])
   \<and> \<not> paired (fst (snd (find_coordinates dec_float svc_lat_only (Island ''A'' ''X'' ''n''))))"
  by (simp add: find_coordinates_def queries_def Island_def geocode_def svc_lat_only_def
      float_field_def dec_float_examples paired_def)

text \<open>
  C9, amended. When \<open>find_coordinates\<close> returns (\<^verbatim>\<open>True\<close> or \<^verbatim>\<open>False\<close>) for a
  descriptor that has both coordinates or neither, the descriptor has both or neither
  afterwards; and after a resolution loop that ran to its end, every descriptor of a
  catalog that started so has both or neither.
\<close>

theorem paired_after_normal_return:
  assumes "paired isle" and "fst (find_coordinates flt svc isle) = Inr b"
    and "list_all paired islands" and "fst (resolve_all flt' svc' islands) = Inr n"
  shows "paired (fst (snd (find_coordinates flt svc isle)))
       \<and> list_all paired (fst (snd (resolve_all flt' svc' islands)))"
  using try_queries_paired [of isle flt svc "queries isle" b] resolve_all_paired [OF assms(3,4)]
    assms(1,2)
  by (simp add: find_coordinates_def)

theorem paired_after_normal_return_witness:
  "paired (fst (snd (find_coordinates dec_float (mock_service mock_AX) (Island ''A'' ''X'' ''n''))))
   \<and> list_all paired (fst (snd (resolve_all dec_float (mock_service mock_AX)
        [Island ''A'' ''X'' ''n'', island_B])))"
  using paired_after_normal_return [of "Island ''A'' ''X'' ''n''" dec_float
      "mock_service mock_AX" True "[Island ''A'' ''X'' ''n'', island_B]" dec_float
      "mock_service mock_AX" 1]
  by (simp add: find_coordinates_def queries_def Island_def island_B_def geocode_mock_found
      geocode_mock_miss mock_AX_def float_field_match_object truthy_match_object
      dec_float_examples paired_def)

subsection \<open>Markers\<close>

lemma resolve2_places:
  "map place.truncate (fst (resolve2 flt svc places)) = filter (resolved2 flt svc) places"
  by (induction places)
     (auto split: prod.splits simp: resolved2_def place.defs)

lemma dict_set_fresh: "k \<notin> fst ` set kvs \<Longrightarrow> dict_set k v kvs = kvs @ [(k, v)]"
  by (induction kvs) auto

lemma resolve3_keys:
  "distinct strs \<Longrightarrow> set strs \<inter> fst ` set coords0 = {} \<Longrightarrow>
   resolve3 flt svc coords0 strs = (None, coords, ev) \<Longrightarrow>
   map fst coords = map fst coords0 @ filter (resolved3 flt svc) strs"
proof (induction strs arbitrary: coords0 ev)
  case Nil
  then show ?case by simp
next
  case (Cons s strs)
  obtain r ev1 where g: "get_coordinates3 flt svc s = (r, ev1)"
    by (cases "get_coordinates3 flt svc s")
  show ?case
  proof (cases r)
    case (Inl e)
    with Cons.prems g show ?thesis by simp
  next
    case (Inr p)
    obtain lat lon where p: "p = (lat, lon)" by (cases p)
    let ?c = "if truthy_float lat \<and> truthy_float lon
              then dict_set s (the lat, the lon) coords0 else coords0"
    from Cons.prems(2) have fresh: "s \<notin> fst ` set coords0" by auto
    then have c: "?c = (if truthy_float lat \<and> truthy_float lon
                        then coords0 @ [(s, the lat, the lon)] else coords0)"
      by (simp add: dict_set_fresh)
    obtain r' c' ev' where rec: "resolve3 flt svc ?c strs = (r', c', ev')"
      by (cases "resolve3 flt svc ?c strs")
    with Cons.prems(3) g Inr p have "r' = None" "c' = coords" by simp_all
    with rec have rec': "resolve3 flt svc ?c strs = (None, coords, ev')" by simp
    from Cons.prems(1,2) have "set strs \<inter> fst ` set ?c = {}" by (auto simp: c)
    with Cons.prems(1) rec' have "map fst coords = map fst ?c @ filter (resolved3 flt svc) strs"
      by (intro Cons.IH) simp_all
    moreover from g Inr p have "resolved3 flt svc s = (truthy_float lat \<and> truthy_float lon)"
      by (simp add: resolved3_def)
    ultimately show ?thesis by (simp add: c)
  qed
qed


lemma dec_float_more:
  "dec_float ''0.0'' = Some 0" "dec_float ''1.0'' = Some 1" "dec_float ''2.0'' = Some 2"
  by (simp_all add: dec_float_def unsigned_dec_def digit_val_def fl_examples)

lemma item_marker_name:
  "hd (m_popup (item_marker it)) = Str (pl_name (place.truncate it))"
  "m_tooltip (item_marker it) = None"
  by (simp_all add: item_marker_def popup_text_def place.defs)

lemma resolve2_labels:
  "map (\<lambda>k. (m_tooltip k, hd (m_popup k))) (map item_marker (fst (resolve2 flt svc places))) =
   map (\<lambda>pl. (None, Str (pl_name pl))) (filter (resolved2 flt svc) places)"
proof -
  have "map (\<lambda>k. (m_tooltip k, hd (m_popup k))) (map item_marker (fst (resolve2 flt svc places))) =
        map (\<lambda>pl. (None, Str (pl_name pl))) (map place.truncate (fst (resolve2 flt svc places)))"
    by (simp add: item_marker_name o_def)
  then show ?thesis by (simp only: resolve2_places)
qed

lemma resolve2_resolved_nonempty:
  "(fst (resolve2 flt svc places) = []) = (filter (resolved2 flt svc) places = [])"
  using resolve2_places [of flt svc places] by (metis map_is_Nil_conv)

lemma entry_marker_labels:
  "map (\<lambda>k. (m_tooltip k, hd (m_popup k))) (map entry_marker coords) =
   map (\<lambda>s. (None, Str s)) (map fst coords)"
  by (induction coords) (auto simp: entry_marker_def)

lemma get_coordinates3_mock_AX:
  "get_coordinates3 dec_float (mock_service mock_AX) ''A, X'' =
     (Inr (Some 61, Some 24), [Request (get_coordinates3_params ''A, X'')])"
  "get_coordinates3 dec_float (mock_service mock_AX) ''B'' =
     (Inr (None, None), [Request (get_coordinates3_params ''B'')])"
  "get_coordinates3 dec_float (mock_service mock_AX) ''A Finland'' =
     (Inr (Some 1, Some 2), [Request (get_coordinates3_params ''A Finland'')])"
  by (simp_all add: get_coordinates3_def get_coordinates3_params_def mock_service_def
      mock_AX_def float_field_match_object truthy_match_object dec_float_examples
      dec_float_more)

lemma get_coordinates2_mock_AX:
  "get_coordinates2 dec_float (mock_service mock_AX) ''A'' ''X'' =
     ((Some 61, Some 24), [Request (get_coordinates2_params ''A, X'')])"
  "get_coordinates2 dec_float (mock_service mock_AX) ''B'' ''Y'' =
     ((None, None), [Request (get_coordinates2_params ''B, Y'')])"
  by (simp_all add: get_coordinates2_def get_coordinates2_params_def mock_service_def
      mock_AX_def float_field_match_object truthy_match_object dec_float_examples)

text \<open>
  C7, as stated, fails on the label: the markers of islands2.py (and of showislands.py)
  are built from a location, a popup and an icon only. For the catalog of the one place
  A of X, resolved at (61, 24), the run saves a map whose single marker has no tooltip.
\<close>

theorem islands2_marker_has_no_label:
  "islands2 dec_float (mock_service mock_AX) [place_A] =
     [Request (get_coordinates2_params ''A, X''), Sleep 1,
      Save ''sipoo_islands_map.html''
        \<lparr>location = (61, 24), zoom_start = 11, tiles = None,
         markers =
           [\<lparr>m_location = (61, 24),
             m_popup = [Str ''A'', Lit '', '', Str ''X'', Lit ''<br>'', Str ''n'',
                        Lit ''<br>Lat: '', Plain 61, Lit ''<br>Lon: '', Plain 24],
             m_tooltip = None,
             m_icon = \<lparr>icon_color = ''blue'', icon_name = ''info-sign'',
                       icon_prefix = None\<rparr>\<rparr>]\<rparr>]
   \<and> m_tooltip (item_marker (item_at ''A'' 61 24)) \<noteq> Some ''A''"
  by (simp add: islands2_def place_A_def get_coordinates2_def get_coordinates2_params_def
      mock_service_def mock_AX_def float_field_match_object truthy_match_object
      dec_float_examples truthy_float_def build2_def py_sum_def py_div_def fl_examples
      add_to_def item_marker_def popup_text_def place.defs item.defs item_at_def)

text \<open>
  C7, amended. The map saved by \<open>create_map\<close> has one marker for each island that passes
  the filter, in the order of the catalog, at the island's coordinates and with the
  island's name as tooltip. The map saved by islands2.py has one marker for each place
  whose lookup gave truthy coordinates, in the order of the catalog, without a tooltip
  and with a popup that starts with the place's name. For a catalog of distinct strings
  whose lookups all returned, showislands.py does the same, the popup starting with the
  catalog string.
\<close>

theorem markers_follow_catalog_order:
  assumes "islands_with_coords islands \<noteq> []"
    and "filter (resolved2 flt svc) places \<noteq> []"
    and "distinct strs" and "resolve3 flt' svc' [] strs = (None, coords, ev)" and "coords \<noteq> []"
  shows "map (\<lambda>(f, m). map (\<lambda>k. (m_location k, m_tooltip k)) (markers m))
             (saved (create_map islands file)) =
           [map (\<lambda>i. ((the (latitude i), the (longitude i)), Some (name i)))
                (filter (\<lambda>i. truthy_float (latitude i) \<and> truthy_float (longitude i)) islands)]
       \<and> map (\<lambda>(f, m). map (\<lambda>k. (m_tooltip k, hd (m_popup k))) (markers m))
             (saved (islands2 flt svc places)) =
           [map (\<lambda>pl. (None, Str (pl_name pl))) (filter (resolved2 flt svc) places)]
       \<and> showislands flt' svc' strs = (None, ev @ build3 coords)
       \<and> map (\<lambda>(f, m). map (\<lambda>k. (m_tooltip k, hd (m_popup k))) (markers m))
             (saved (build3 coords)) =
           [map (\<lambda>s. (None, Str s)) (filter (resolved3 flt' svc') strs)]"
proof -
  have a: "map (\<lambda>(f, m). map (\<lambda>k. (m_location k, m_tooltip k)) (markers m))
             (saved (create_map islands file)) =
           [map (\<lambda>i. ((the (latitude i), the (longitude i)), Some (name i)))
                (filter (\<lambda>i. truthy_float (latitude i) \<and> truthy_float (longitude i)) islands)]"
    using assms(1)
    by (simp add: create_map_some o_def island_marker_def) (simp add: islands_with_coords_def)
  from assms(2) have ne: "fst (resolve2 flt svc places) \<noteq> []"
    by (simp add: resolve2_resolved_nonempty)
  obtain cs ev2 where r2: "resolve2 flt svc places = (cs, ev2)"
    by (cases "resolve2 flt svc places")
  with ne have cs: "cs \<noteq> []" by simp
  have "saved ev2 = []" using saved_resolve2 [of flt svc places] r2 by simp
  then have "saved (islands2 flt svc places) = saved (build2 cs)"
    by (simp add: islands2_def r2 saved_append)
  moreover have "map (\<lambda>k. (m_tooltip k, hd (m_popup k))) (map item_marker cs) =
      map (\<lambda>pl. (None, Str (pl_name pl))) (filter (resolved2 flt svc) places)"
    using resolve2_labels [of flt svc places] r2 by simp
  ultimately have b: "map (\<lambda>(f, m). map (\<lambda>k. (m_tooltip k, hd (m_popup k))) (markers m))
             (saved (islands2 flt svc places)) =
           [map (\<lambda>pl. (None, Str (pl_name pl))) (filter (resolved2 flt svc) places)]"
    using cs by (simp add: build2_some)
  have c: "showislands flt' svc' strs = (None, ev @ build3 coords)"
    using assms(4) by (simp add: showislands_def)
  have "map fst coords = filter (resolved3 flt' svc') strs"
    using resolve3_keys [OF assms(3) _ assms(4)] by simp
  then have d: "map (\<lambda>(f, m). map (\<lambda>k. (m_tooltip k, hd (m_popup k))) (markers m))
             (saved (build3 coords)) =
           [map (\<lambda>s. (None, Str s)) (filter (resolved3 flt' svc') strs)]"
    using assms(5) entry_marker_labels [of coords] by (simp add: build3_some)
  from a b c d show ?thesis by simp
qed

theorem markers_follow_catalog_order_witness:
  "map (\<lambda>(f, m). map (\<lambda>k. (m_location k, m_tooltip k)) (markers m))
       (saved (create_map [island_at ''A'' 61 24, island_B, island_at ''C'' 62 25] ''map.html'')) =
     [[((61, 24), Some ''A''), ((62, 25), Some ''C'')]]
   \<and> map (\<lambda>(f, m). map (\<lambda>k. (m_tooltip k, hd (m_popup k))) (markers m))
       (saved (islands2 dec_float (mock_service mock_AX) [place_A, place_B])) =
     [[(None, Str ''A'')]]
   \<and> map (\<lambda>(f, m). map (\<lambda>k. (m_tooltip k, hd (m_popup k))) (markers m))
       (saved (snd (showislands dec_float (mock_service mock_AX) catalog3))) =
     [[(None, Str ''A, X''), (None, Str ''A Finland'')]]"
  using markers_follow_catalog_order [of
      "[island_at ''A'' 61 24, island_B, island_at ''C'' 62 25]"
      dec_float "mock_service mock_AX" "[place_A, place_B]" catalog3
      dec_float "mock_service mock_AX" "[(''A, X'', 61, 24), (''A Finland'', 1, 2)]"
      "[Request (get_coordinates3_params ''A, X''), Sleep 1,
        Request (get_coordinates3_params ''B''), Sleep 1,
        Request (get_coordinates3_params ''A Finland''), Sleep 1]" "''map.html''"]
  by (simp add: islands_with_coords_def truthy_float_def island_at_def island_B_def Island_def
      resolved2_def resolved3_def place_A_def place_B_def catalog3_def
      get_coordinates2_mock_AX get_coordinates3_mock_AX saved_append)

subsection \<open>Popup texts\<close>




subsection \<open>Coordinates equal to zero\<close>

lemma get_coordinates_mock_zero:
  "get_coordinates2 dec_float (mock_service mock_zero) nm cty =
     ((Some 0, Some 24), [Request (get_coordinates2_params (nm @ '', '' @ cty))])"
  "get_coordinates3 dec_float (mock_service mock_zero) s =
     (Inr (Some 0, Some 24), [Request (get_coordinates3_params s)])"
  "geocode (mock_service mock_zero) q =
     (Inr (Some (match_object ''0.0'' ''24.0'')), [Request (geocode_params q)])"
  by (simp_all add: get_coordinates2_def get_coordinates3_def mock_service_def mock_zero_def
      float_field_match_object truthy_match_object dec_float_examples dec_float_more
      geocode_def geocode_params_def Let_def)

text \<open>
  C10. A latitude or longitude equal to 0.0 is falsy in Python, so a place with such a
  coordinate is handled as a place without coordinates. In recreational\_islands.py the
  filter of \<open>create_map\<close> drops an island whose stored latitude or longitude is 0.0: the
  islands that pass are those of the catalog without it, and \<open>create_map\<close> does what it
  does for the catalog without it. In islands2.py and in
  showislands.py a lookup that returns such a pair adds nothing to \<^verbatim>\<open>coordinates\<close>:
  the loop goes on as it would without the place.
\<close>

theorem zero_coordinate_is_unresolved:
  assumes "la = 0 \<or> lo = 0"
    and "latitude isle = Some la" and "longitude isle = Some lo"
    and "fst (get_coordinates2 flt svc (pl_name pl) (pl_city pl)) = (Some la, Some lo)"
    and "fst (get_coordinates3 flt' svc' s) = Inr (Some la, Some lo)"
  shows "islands_with_coords (pre @ isle # post) = islands_with_coords (pre @ post)
       \<and> create_map (pre @ isle # post) output_file = create_map (pre @ post) output_file
       \<and> fst (resolve2 flt svc (pl # rest)) = fst (resolve2 flt svc rest)
       \<and> fst (resolve3 flt' svc' coordinates (s # strs)) = fst (resolve3 flt' svc' coordinates strs)
       \<and> fst (snd (resolve3 flt' svc' coordinates (s # strs))) =
           fst (snd (resolve3 flt' svc' coordinates strs))"
proof -
  from assms(1) have nt: "(truthy_float (Some la) \<and> truthy_float (Some lo)) = False"
    by (auto simp: truthy_float_def)
  with assms(2,3) have a: "islands_with_coords (pre @ isle # post) = islands_with_coords (pre @ post)"
    by (simp add: islands_with_coords_def)
  obtain ev2 where g2: "get_coordinates2 flt svc (pl_name pl) (pl_city pl) = ((Some la, Some lo), ev2)"
    using assms(4) by (cases "get_coordinates2 flt svc (pl_name pl) (pl_city pl)") simp
  have b: "fst (resolve2 flt svc (pl # rest)) = fst (resolve2 flt svc rest)"
    using assms(1) by (auto simp: g2 truthy_float_def split: prod.splits)
  obtain ev3 where g3: "get_coordinates3 flt' svc' s = (Inr (Some la, Some lo), ev3)"
    using assms(5) by (cases "get_coordinates3 flt' svc' s") simp
  have c: "fst (resolve3 flt' svc' coordinates (s # strs)) = fst (resolve3 flt' svc' coordinates strs)
       \<and> fst (snd (resolve3 flt' svc' coordinates (s # strs))) =
           fst (snd (resolve3 flt' svc' coordinates strs))"
    using assms(1) by (auto simp: g3 truthy_float_def split: prod.splits)
  from a have "create_map (pre @ isle # post) output_file = create_map (pre @ post) output_file"
    by (simp add: create_map_def)
  with a b c show ?thesis by simp
qed

theorem zero_coordinate_is_unresolved_witness:
  "find_coordinates dec_float (mock_service mock_zero) (Island ''A'' ''X'' ''n'') =
     (Inr True, island_at ''A'' 0 24, [Request (geocode_params ''A, X, Finland'')])
   \<and> islands_with_coords [island_at ''A'' 0 24] = []
   \<and> snd (snd (main dec_float (mock_service mock_zero) [Island ''A'' ''X'' ''n''])) =
       [Request (geocode_params ''A, X, Finland''),
        Print ''No islands with coordinates to display on map.'']
   \<and> resolve2 dec_float (mock_service mock_zero) [place_A] =
       ([], [Request (get_coordinates2_params ''A, X''), Sleep 1])
   \<and> resolve3 dec_float (mock_service mock_zero) [] [''A X''] =
       (None, [], [Request (get_coordinates3_params ''A X''), Sleep 1])"
  using zero_coordinate_is_unresolved [where la = 0 and lo = 24
      and isle = "island_at ''A'' 0 24" and flt = dec_float
      and svc = "mock_service mock_zero" and pl = place_A and flt' = dec_float
      and svc' = "mock_service mock_zero" and s = "''A X''" and pre = "[]" and post = "[]"
      and rest = "[]" and coordinates = "[]" and strs = "[]" and output_file = "''map.html''"]
  by (simp add: find_coordinates_def queries_def Island_def island_at_def
      get_coordinates_mock_zero float_field_match_object truthy_match_object
      dec_float_examples dec_float_more islands_with_coords_def truthy_float_def
      main_def create_map_def place_A_def)

end
